theory Spec2Isabelle
  imports Main
begin

section \<open>Data model of the gallery (src/index.tsx, lines 4-23)\<close>

text \<open>
  \<^verbatim>\<open>interface ImageState { id: number; src: string | null; }\<close>
  The field \<open>id\<close> is written \<open>id'\<close> here, because \<open>id\<close> is the identity function of HOL.
  Ids are the integers the program builds (\<open>i + 1\<close>); they are compared with \<open>===\<close>
  only, which on integers is equality. A \<open>null\<close> src is \<open>None\<close>.
\<close>

record ImageState =
  id' :: int
  src :: "string option"

text \<open>\<^verbatim>\<open>type Layout = 'grid' | 'feed';\<close>\<close>

datatype Layout = grid | feed

text \<open>
  The two \<open>useState\<close> cells of \<open>App\<close> (lines 96-97): the slot list and the layout mode.
\<close>

record GalleryState =
  images :: "ImageState list"
  layout :: Layout

subsection \<open>Decimal rendering of a number inside a template literal\<close>

definition digit_char :: "nat \<Rightarrow> char" where
  "digit_char d = char_of (48 + d)"

function toString_nat :: "nat \<Rightarrow> string" where
  "toString_nat n =
     (if n < 10 then [digit_char n]
      else toString_nat (n div 10) @ [digit_char (n mod 10)])"
  by pat_completeness auto
termination
  by (relation "measure (\<lambda>n. n)") auto

declare toString_nat.simps [simp del]

definition toString :: "int \<Rightarrow> string" where
  "toString k = (if k < 0 then CHR ''-'' # toString_nat (nat (- k)) else toString_nat (nat k))"

subsection \<open>The initial slot list\<close>

definition INITIAL_IMAGE_COUNT :: nat where
  "INITIAL_IMAGE_COUNT = 16"

text \<open>
  \<^verbatim>\<open>`https://picsum.photos/seed/${i + 1}/600/600`\<close>, as a function of the value \<open>i + 1\<close>.
\<close>

definition placeholder :: "int \<Rightarrow> string" where
  "placeholder k = ''https://picsum.photos/seed/'' @ toString k @ ''/600/600''"

text \<open>
  \<^verbatim>\<open>Array.from({ length: count }, (_, i) => ({ id: i + 1, src: `...${i + 1}...` }))\<close>
  with the length as a parameter; the callback runs on the indices \<open>0, ..., count - 1\<close> in order.
\<close>

definition initialize :: "nat \<Rightarrow> ImageState list" where
  "initialize count =
     map (\<lambda>i. \<lparr> id' = int i + 1, src = Some (placeholder (int i + 1)) \<rparr>) [0..<count]"

definition initialImages :: "ImageState list" where
  "initialImages = initialize INITIAL_IMAGE_COUNT"

definition initialState :: GalleryState where
  "initialState = \<lparr> images = initialImages, layout = grid \<rparr>"

section \<open>The state store (lines 96-103)\<close>

text \<open>
  \<^verbatim>\<open>setImages((currentImages) =>
       currentImages.map((img) => (img.id === id ? { ...img, src } : img)))\<close>
  The parameter \<open>src\<close> has type \<open>string\<close>, so the new field is never \<open>null\<close>.
  Only the \<open>images\<close> cell is written.
\<close>

definition handleImageUpdate :: "int \<Rightarrow> string \<Rightarrow> GalleryState \<Rightarrow> GalleryState" where
  "handleImageUpdate i s st =
     st\<lparr> images := map (\<lambda>img. if id' img = i then img\<lparr> src := Some s \<rparr> else img) (images st) \<rparr>"

text \<open>\<^verbatim>\<open>setLayout('grid')\<close>, \<^verbatim>\<open>setLayout('feed')\<close>: the setter of the layout cell.\<close>

definition setLayout :: "Layout \<Rightarrow> GalleryState \<Rightarrow> GalleryState" where
  "setLayout m st = st\<lparr> layout := m \<rparr>"

section \<open>Slot presentation (lines 26-91)\<close>

text \<open>
  A \<open>File\<close> of the host platform, as far as the handler reads it: its name and its declared
  MIME type (\<^verbatim>\<open>file.type\<close>).
\<close>

record File =
  name :: string
  type :: string

text \<open>
  The change event of the hidden file input: \<^verbatim>\<open>event.target.files\<close> (which may be
  \<open>null\<close>) and \<^verbatim>\<open>event.target.value\<close>.
\<close>

record ChangeEvent =
  files :: "File list option"
  target_value :: string

text \<open>
  What the handler can change: the gallery state (through the callback \<open>onImageUpload\<close>)
  and the notices shown with \<^verbatim>\<open>alert\<close>, oldest first.
\<close>

record World =
  gallery :: GalleryState
  alerts :: "string list"

text \<open>\<^verbatim>\<open>s.startsWith(p)\<close>\<close>

definition startsWith :: "string \<Rightarrow> string \<Rightarrow> bool" where
  "startsWith s p = (take (length p) s = p)"

text \<open>
  The literal passed to \<^verbatim>\<open>alert\<close> (line 40), a Persian sentence asking for an image
  file, as its UTF-8 bytes.
\<close>

definition notImageMessage :: string where
  "notImageMessage = map char_of
     [217, 132, 216, 183, 217, 129, 216, 167, 32, 219, 140, 218, 169, 32, 217, 129, 216,
      167, 219, 140, 217, 132, 32, 216, 185, 218, 169, 216, 179, 32, 216, 167, 217, 134,
      216, 170, 216, 174, 216, 167, 216, 168, 32, 218, 169, 217, 134, 219, 140, 216, 175,
      46 :: nat]"

text \<open>\<^verbatim>\<open>event.target.files?.[0]\<close>: \<open>undefined\<close> when the list is \<open>null\<close> or empty.\<close>

definition first_file :: "ChangeEvent \<Rightarrow> File option" where
  "first_file event =
     (case files event of None \<Rightarrow> None | Some [] \<Rightarrow> None | Some (f # _) \<Rightarrow> Some f)"

text \<open>
  \<^verbatim>\<open>
  const handleFileChange = (event) => {
    const file = event.target.files?.[0];
    if (file) {
      if (file.type.startsWith('image/')) {
        const imageUrl = URL.createObjectURL(file);
        onImageUpload(image.id, imageUrl);
      } else {
        alert("...");
      }
    }
    event.target.value = '';
  };
  \<close>
  \<open>URL.createObjectURL\<close> belongs to the browser and is a parameter. \<open>img\<close> is the slot
  the card was rendered with (the prop \<open>image\<close>), and \<open>onImageUpload\<close> is \<open>handleImageUpdate\<close> (line 155).
  The result is the new world and the event with its target's value reset.
\<close>

definition handleFileChange ::
    "(File \<Rightarrow> string) \<Rightarrow> ImageState \<Rightarrow> ChangeEvent \<Rightarrow> World \<Rightarrow> World \<times> ChangeEvent" where
  "handleFileChange createObjectURL img event w =
     (let w' =
        (case first_file event of
           None \<Rightarrow> w
         | Some file \<Rightarrow>
             if startsWith (type file) ''image/''
             then w\<lparr> gallery := handleImageUpdate (id' img) (createObjectURL file) (gallery w) \<rparr>
             else w\<lparr> alerts := alerts w @ [notImageMessage] \<rparr>)
      in (w', event\<lparr> target_value := [] \<rparr>))"

text \<open>
  The two branches of the card (lines 58-88): \<^verbatim>\<open>image.src ? <img .../> : <placeholder/>\<close>.
  The test is JavaScript truthiness: \<open>null\<close> and the empty string both take the second branch.
\<close>

datatype CardView = ShowsImage string | ShowsPlaceholder int

definition cardView :: "ImageState \<Rightarrow> CardView" where
  "cardView img =
     (case src img of
        None \<Rightarrow> ShowsPlaceholder (id' img)
      | Some s \<Rightarrow> if s = [] then ShowsPlaceholder (id' img) else ShowsImage s)"

section \<open>User events and the states they reach\<close>

text \<open>
  The application changes state only in its event handlers: a click on one of the two layout
  buttons (lines 128, 138), and a change event of the file input of the card at position \<open>k\<close>
  of the rendered list (line 151: one card per slot, in order). There is no card at a
  position beyond the list.
\<close>

datatype Event = LayoutClick Layout | FileChange nat ChangeEvent

fun step :: "(File \<Rightarrow> string) \<Rightarrow> World \<Rightarrow> Event \<Rightarrow> World" where
  "step createObjectURL w (LayoutClick m) = w\<lparr> gallery := setLayout m (gallery w) \<rparr>"
| "step createObjectURL w (FileChange k event) =
     (if k < length (images (gallery w))
      then fst (handleFileChange createObjectURL (images (gallery w) ! k) event w)
      else w)"

definition initialWorld :: World where
  "initialWorld = \<lparr> gallery = initialState, alerts = [] \<rparr>"

definition run :: "(File \<Rightarrow> string) \<Rightarrow> Event list \<Rightarrow> World" where
  "run createObjectURL events = foldl (step createObjectURL) initialWorld events"

section \<open>Startup (lines 187-197)\<close>

text \<open>
  The document, as far as startup reads it: the elements that carry an id, in document
  order. \<^verbatim>\<open>document.getElementById\<close> returns the first element with the id, or \<open>null\<close>.
\<close>

datatype Element = Element nat

type_synonym Document = "(string \<times> Element) list"

definition getElementById :: "Document \<Rightarrow> string \<Rightarrow> Element option" where
  "getElementById doc i = map_of doc i"

text \<open>
  The calls into the rendering library that startup makes, in order:
  \<^verbatim>\<open>ReactDOM.createRoot(rootElement)\<close>, then \<^verbatim>\<open>root.render(<React.StrictMode><App /></React.StrictMode>)\<close>.
\<close>

datatype RenderCall = CreateRoot Element | RenderApp Element

datatype Error = Error string

text \<open>
  \<^verbatim>\<open>
  const rootElement = document.getElementById('root');
  if (!rootElement) { throw new Error("Could not find root element to mount to"); }
  const root = ReactDOM.createRoot(rootElement);
  root.render(...);
  \<close>
  The result is the uncaught error, or the calls made.
\<close>

definition startup :: "Document \<Rightarrow> Error + RenderCall list" where
  "startup doc =
     (case getElementById doc ''root'' of
        None \<Rightarrow> Inl (Error ''Could not find root element to mount to'')
      | Some rootElement \<Rightarrow> Inr [CreateRoot rootElement, RenderApp rootElement])"

section \<open>The slot-list invariant\<close>

text \<open>
  Exactly one slot per id in \<open>[1, N]\<close>, in id order: the list of ids is \<open>1, 2, ..., N\<close>.
\<close>

definition slots_wf :: "nat \<Rightarrow> GalleryState \<Rightarrow> bool" where
  "slots_wf N st = (map id' (images st) = map int [1..<Suc N])"

section \<open>Auxiliary facts\<close>

lemma handleImageUpdate_images:
  "images (handleImageUpdate i s st) =
     map (\<lambda>img. if id' img = i then img\<lparr> src := Some s \<rparr> else img) (images st)"
  by (simp add: handleImageUpdate_def)

lemma handleImageUpdate_layout: "layout (handleImageUpdate i s st) = layout st"
  by (simp add: handleImageUpdate_def)

lemma handleImageUpdate_ids: "map id' (images (handleImageUpdate i s st)) = map id' (images st)"
  by (simp add: handleImageUpdate_images)

lemma map_unchanged:
  "i \<notin> id' ` set xs \<Longrightarrow>
     map (\<lambda>img. if id' img = i then img\<lparr> src := Some s \<rparr> else img) xs = xs"
  by (induction xs) auto

lemma toString_nat_nonempty: "toString_nat n \<noteq> []"
  by (subst toString_nat.simps) simp

lemma placeholder_nonempty: "placeholder k \<noteq> []"
  by (simp add: placeholder_def)

lemma initialize_ids: "map id' (initialize count) = map int [1..<Suc count]"
  by (induction count) (simp_all add: initialize_def)

lemma initialize_src:
  "img \<in> set (initialize count) \<Longrightarrow> src img = Some (placeholder (id' img))"
  by (auto simp: initialize_def)

lemma initialImages_unfold:
  "initialImages =
     map (\<lambda>k. \<lparr> id' = k, src = Some (placeholder k) \<rparr>)
       [1, 2, 3, 4, 5, 6, 7, 8, 9, 10, 11, 12, 13, 14, 15, 16]"
  by (simp add: initialImages_def initialize_def INITIAL_IMAGE_COUNT_def upt_rec)

text \<open>The card's test is truthiness: a slot whose src is the empty string shows the placeholder.\<close>

lemma cardView_empty_string: "cardView \<lparr> id' = k, src = Some [] \<rparr> = ShowsPlaceholder k"
  by (simp add: cardView_def)

text \<open>
  One event keeps every src present; it keeps every src non-empty as well when the
  browser's object URLs are non-empty (\<open>nonempty\<close> selects the stronger reading).
\<close>

lemma step_src:
  assumes "\<forall>img \<in> set (images (gallery w)). \<exists>s. src img = Some s \<and> (nonempty \<longrightarrow> s \<noteq> [])"
    and "nonempty \<longrightarrow> (\<forall>f. url f \<noteq> [])"
  shows "\<forall>img \<in> set (images (gallery (step url w e))).
           \<exists>s. src img = Some s \<and> (nonempty \<longrightarrow> s \<noteq> [])"
proof (cases e)
  case (LayoutClick m)
  with assms(1) show ?thesis by (simp add: setLayout_def)
next
  case (FileChange k ev)
  with assms show ?thesis
    by (auto simp: handleFileChange_def handleImageUpdate_def Let_def split: option.splits)
qed

lemma foldl_step_src:
  assumes "\<forall>img \<in> set (images (gallery w)). \<exists>s. src img = Some s \<and> (nonempty \<longrightarrow> s \<noteq> [])"
    and "nonempty \<longrightarrow> (\<forall>f. url f \<noteq> [])"
  shows "\<forall>img \<in> set (images (gallery (foldl (step url) w es))).
           \<exists>s. src img = Some s \<and> (nonempty \<longrightarrow> s \<noteq> [])"
  using assms(1)
proof (induction es arbitrary: w)
  case Nil
  then show ?case by simp
next
  case (Cons e es)
  have "\<forall>img \<in> set (images (gallery (step url w e))).
          \<exists>s. src img = Some s \<and> (nonempty \<longrightarrow> s \<noteq> [])"
    using Cons.prems assms(2) by (rule step_src)
  then show ?case using Cons.IH by simp
qed

lemma initialWorld_src:
  "\<forall>img \<in> set (images (gallery initialWorld)).
     \<exists>s. src img = Some s \<and> (nonempty \<longrightarrow> s \<noteq> [])"
  by (auto simp: initialWorld_def initialState_def initialImages_def initialize_def
        placeholder_nonempty)

lemma run_src:
  assumes "nonempty \<longrightarrow> (\<forall>f. url f \<noteq> [])" and "img \<in> set (images (gallery (run url es)))"
  shows "\<exists>s. src img = Some s \<and> (nonempty \<longrightarrow> s \<noteq> [])"
  using foldl_step_src [OF initialWorld_src assms(1)] assms(2) unfolding run_def by blast

section \<open>The state store\<close>

text \<open>
  C1. For every gallery state, every id that matches an existing slot and every non-empty
  reference, the update keeps the length of the slot list, gives every slot with that id the
  new reference as its src (and leaves its id alone), leaves every other slot equal to its
  prior value, and leaves the layout mode unchanged.
\<close>

theorem handleImageUpdate_existing_id:
  assumes "i \<in> id' ` set (images st)" and "r \<noteq> []"
  shows "length (images (handleImageUpdate i r st)) = length (images st) \<and>
     (\<forall>j < length (images st).
        (id' (images st ! j) = i \<longrightarrow>
           images (handleImageUpdate i r st) ! j = (images st ! j)\<lparr> src := Some r \<rparr>) \<and>
        (id' (images st ! j) \<noteq> i \<longrightarrow>
           images (handleImageUpdate i r st) ! j = images st ! j)) \<and>
     layout (handleImageUpdate i r st) = layout st"
  by (simp add: handleImageUpdate_images handleImageUpdate_layout)

text \<open>
  At the initial state, replacing the image of slot 1: slot 1 holds the new reference and
  slot 2 still holds its placeholder.
\<close>

theorem handleImageUpdate_existing_id_witness:
  "1 \<in> id' ` set (images initialState) \<and> ''blob:local-ref-A'' \<noteq> [] \<and>
   length (images (handleImageUpdate 1 ''blob:local-ref-A'' initialState)) = 16 \<and>
   images (handleImageUpdate 1 ''blob:local-ref-A'' initialState) ! 0
     = \<lparr> id' = 1, src = Some ''blob:local-ref-A'' \<rparr> \<and>
   images (handleImageUpdate 1 ''blob:local-ref-A'' initialState) ! 1
     = \<lparr> id' = 2, src = Some (placeholder 2) \<rparr> \<and>
   layout (handleImageUpdate 1 ''blob:local-ref-A'' initialState) = grid"
proof -
  have m: "1 \<in> id' ` set (images initialState)"
    by (simp add: initialState_def initialImages_unfold)
  have n: "''blob:local-ref-A'' \<noteq> []" by simp
  have i0: "images initialState ! 0 = \<lparr> id' = 1, src = Some (placeholder 1) \<rparr>"
    and i1: "images initialState ! 1 = \<lparr> id' = 2, src = Some (placeholder 2) \<rparr>"
    and len: "length (images initialState) = 16" and lay: "layout initialState = grid"
    by (simp_all add: initialState_def initialImages_unfold)
  note t = handleImageUpdate_existing_id [OF m n]
  have all: "\<forall>j < length (images initialState).
        (id' (images initialState ! j) = 1 \<longrightarrow>
           images (handleImageUpdate 1 ''blob:local-ref-A'' initialState) ! j
             = (images initialState ! j)\<lparr> src := Some ''blob:local-ref-A'' \<rparr>) \<and>
        (id' (images initialState ! j) \<noteq> 1 \<longrightarrow>
           images (handleImageUpdate 1 ''blob:local-ref-A'' initialState) ! j
             = images initialState ! j)"
    using t by blast
  have a: "images (handleImageUpdate 1 ''blob:local-ref-A'' initialState) ! 0
             = \<lparr> id' = 1, src = Some ''blob:local-ref-A'' \<rparr>"
    using all [rule_format, of 0] len i0 by simp
  have b: "images (handleImageUpdate 1 ''blob:local-ref-A'' initialState) ! 1
             = \<lparr> id' = 2, src = Some (placeholder 2) \<rparr>"
    using all [rule_format, of 1] len i1 by simp
  from t m n a b len lay show ?thesis by simp
qed

text \<open>
  C3. For every gallery state and every id that matches no slot, the update returns the
  state it was given: the slot list (and the layout mode) are unchanged. The update is a
  total function with no error result, as the source has no throwing path.
\<close>

theorem handleImageUpdate_unknown_id:
  "i \<notin> id' ` set (images st) \<Longrightarrow> handleImageUpdate i r st = st"
  by (simp add: handleImageUpdate_def map_unchanged)

theorem handleImageUpdate_unknown_id_witness:
  "(17::int) \<notin> id' ` set (images initialState) \<and>
   handleImageUpdate 17 ''blob:a'' initialState = initialState"
proof -
  have "(17::int) \<notin> id' ` set (images initialState)"
    by (simp add: initialState_def initialImages_unfold)
  then show ?thesis
    using handleImageUpdate_unknown_id [of 17 initialState "''blob:a''"] by simp
qed

text \<open>
  C7. The update is idempotent for every input: for every state, every id (matching a slot
  or not) and every reference, applying it twice gives the state that applying it once gives.
\<close>

theorem handleImageUpdate_idempotent:
  "handleImageUpdate i r (handleImageUpdate i r st) = handleImageUpdate i r st"
  by (simp add: handleImageUpdate_def)

text \<open>
  C6. Setting the layout mode is idempotent: for every state and every mode, setting the
  same mode twice gives the same state (layout mode and slot list) as setting it once.
\<close>

theorem setLayout_idempotent: "setLayout m (setLayout m st) = setLayout m st"
  by (simp add: setLayout_def)

section \<open>Initial state and invariant\<close>

text \<open>
  C2. For every count above 0, the construction yields exactly count slots, their ids are
  1, 2, ..., count in this order, and every slot's src is the placeholder reference computed
  from its own id, which is a non-empty string.
\<close>

theorem initialize_slots:
  "0 < count \<Longrightarrow>
     length (initialize count) = count \<and>
     map id' (initialize count) = map int [1..<Suc count] \<and>
     (\<forall>img \<in> set (initialize count).
        src img = Some (placeholder (id' img)) \<and> placeholder (id' img) \<noteq> [])"
  by (simp add: initialize_ids initialize_src placeholder_nonempty) (simp add: initialize_def)

text \<open>The instance of the program, count = 16; the last slot's reference is written out.\<close>

theorem initialize_slots_witness:
  "0 < INITIAL_IMAGE_COUNT \<and> length initialImages = 16 \<and>
   map id' initialImages = [1, 2, 3, 4, 5, 6, 7, 8, 9, 10, 11, 12, 13, 14, 15, 16] \<and>
   list_all (\<lambda>img. src img = Some (placeholder (id' img)) \<and> placeholder (id' img) \<noteq> [])
     initialImages \<and>
   src (initialImages ! 15) = Some ''https://picsum.photos/seed/16/600/600''"
proof -
  have pos: "0 < INITIAL_IMAGE_COUNT" by (simp add: INITIAL_IMAGE_COUNT_def)
  have last: "src (initialImages ! 15) = Some ''https://picsum.photos/seed/16/600/600''"
    by code_simp
  have "length initialImages = INITIAL_IMAGE_COUNT \<and>
     map id' initialImages = map int [1..<Suc INITIAL_IMAGE_COUNT] \<and>
     (\<forall>img \<in> set initialImages.
        src img = Some (placeholder (id' img)) \<and> placeholder (id' img) \<noteq> [])"
    unfolding initialImages_def using pos by (rule initialize_slots)
  with pos last show ?thesis
    by (simp add: INITIAL_IMAGE_COUNT_def upt_rec list_all_iff)
qed

text \<open>
  C4. The invariant that the slot list holds exactly one slot per id in [1, N], without
  duplicates or gaps, in id order, holds of the initial state (N = 16, and of the
  construction for every N), and is preserved by the image update for every id and
  reference and by the layout setter for every mode.
\<close>

theorem slots_wf_invariant:
  "slots_wf INITIAL_IMAGE_COUNT initialState \<and>
   (\<forall>N. slots_wf N \<lparr> images = initialize N, layout = grid \<rparr>) \<and>
   (\<forall>N st i s. slots_wf N st \<longrightarrow> slots_wf N (handleImageUpdate i s st)) \<and>
   (\<forall>N st m. slots_wf N st \<longrightarrow> slots_wf N (setLayout m st))"
  by (simp add: slots_wf_def handleImageUpdate_ids initialState_def initialImages_def
        initialize_ids setLayout_def)

theorem slots_wf_invariant_witness:
  "slots_wf 16 initialState \<and>
   slots_wf 16 (handleImageUpdate 3 ''blob:x'' initialState) \<and>
   slots_wf 16 (setLayout feed initialState) \<and>
   map id' (images (handleImageUpdate 3 ''blob:x'' initialState))
     = [1, 2, 3, 4, 5, 6, 7, 8, 9, 10, 11, 12, 13, 14, 15, 16]"
proof -
  have a: "slots_wf 16 initialState"
    using slots_wf_invariant by (simp add: INITIAL_IMAGE_COUNT_def)
  have b: "slots_wf 16 (handleImageUpdate 3 ''blob:x'' initialState)"
    using slots_wf_invariant a by blast
  have c: "slots_wf 16 (setLayout feed initialState)"
    using slots_wf_invariant a by blast
  from a b c show ?thesis by (simp add: slots_wf_def upt_rec)
qed

text \<open>
  C10. In every state reached from the initial one by user events, every slot's src is
  present (not null). The card chooses its branch by truthiness, so the placeholder branch
  also needs a non-empty string to be excluded: when the browser's object URLs are non-empty,
  every card of every reached state shows its image and none shows the placeholder.
\<close>

theorem reachable_src_present:
  "\<forall>img \<in> set (images (gallery (run createObjectURL events))).
     src img \<noteq> None \<and>
     ((\<forall>f. createObjectURL f \<noteq> []) \<longrightarrow> cardView img = ShowsImage (the (src img)))"
proof
  fix img assume mem: "img \<in> set (images (gallery (run createObjectURL events)))"
  have a: "src img \<noteq> None"
    using run_src [of False createObjectURL img events] mem by auto
  have b: "cardView img = ShowsImage (the (src img))" if "\<forall>f. createObjectURL f \<noteq> []"
    using run_src [of True createObjectURL img events] mem that by (auto simp: cardView_def)
  from a b show "src img \<noteq> None \<and>
     ((\<forall>f. createObjectURL f \<noteq> []) \<longrightarrow> cardView img = ShowsImage (the (src img)))"
    by blast
qed

theorem reachable_src_present_witness:
  "(\<forall>f. (\<lambda>f. ''blob:'' @ name f) f \<noteq> []) \<and>
   list_all (\<lambda>img. src img \<noteq> None \<and> cardView img = ShowsImage (the (src img)))
     (images (gallery (run (\<lambda>f. ''blob:'' @ name f)
        [FileChange 0 \<lparr> files = Some [\<lparr> name = ''a.png'', type = ''image/png'' \<rparr>],
                         target_value = ''a.png'' \<rparr>,
         LayoutClick feed]))) \<and>
   cardView (hd (images (gallery (run (\<lambda>f. ''blob:'' @ name f)
        [FileChange 0 \<lparr> files = Some [\<lparr> name = ''a.png'', type = ''image/png'' \<rparr>],
                         target_value = ''a.png'' \<rparr>,
         LayoutClick feed])))) = ShowsImage ''blob:a.png''"
proof -
  have ne: "\<forall>f. (\<lambda>f. ''blob:'' @ name f) f \<noteq> []" by simp
  have hd: "cardView (hd (images (gallery (run (\<lambda>f. ''blob:'' @ name f)
        [FileChange 0 \<lparr> files = Some [\<lparr> name = ''a.png'', type = ''image/png'' \<rparr>],
                         target_value = ''a.png'' \<rparr>,
         LayoutClick feed])))) = ShowsImage ''blob:a.png''"
    by (simp add: run_def initialWorld_def initialState_def initialImages_unfold
          handleFileChange_def first_file_def startsWith_def handleImageUpdate_def
          setLayout_def cardView_def)
  from reachable_src_present [of "\<lambda>f. ''blob:'' @ name f"] ne hd show ?thesis
    by (simp add: list_all_iff)
qed

section \<open>Slot presentation\<close>

text \<open>
  C5. For every change event whose selected file has a declared MIME type that does not
  begin with image/, the handler shows exactly one notice (the list of notices grows by the
  one message) and leaves the gallery state, so every slot's src, as it was.
\<close>

theorem handleFileChange_not_image:
  assumes "files event = Some (file # rest)" and "\<not> startsWith (type file) ''image/''"
  shows "alerts (fst (handleFileChange createObjectURL img event w))
           = alerts w @ [notImageMessage] \<and>
         gallery (fst (handleFileChange createObjectURL img event w)) = gallery w"
  using assms by (simp add: handleFileChange_def first_file_def)

theorem handleFileChange_not_image_witness:
  "files \<lparr> files = Some [\<lparr> name = ''notes.pdf'', type = ''application/pdf'' \<rparr>],
            target_value = ''notes.pdf'' \<rparr>
      = Some [\<lparr> name = ''notes.pdf'', type = ''application/pdf'' \<rparr>] \<and>
   \<not> startsWith (type \<lparr> name = ''notes.pdf'', type = ''application/pdf'' \<rparr>) ''image/'' \<and>
   alerts (fst (handleFileChange (\<lambda>f. ''blob:'' @ name f) (hd initialImages)
      \<lparr> files = Some [\<lparr> name = ''notes.pdf'', type = ''application/pdf'' \<rparr>],
        target_value = ''notes.pdf'' \<rparr>
      initialWorld)) = [notImageMessage] \<and>
   gallery (fst (handleFileChange (\<lambda>f. ''blob:'' @ name f) (hd initialImages)
      \<lparr> files = Some [\<lparr> name = ''notes.pdf'', type = ''application/pdf'' \<rparr>],
        target_value = ''notes.pdf'' \<rparr>
      initialWorld)) = initialState"
proof -
  have f: "files \<lparr> files = Some [\<lparr> name = ''notes.pdf'', type = ''application/pdf'' \<rparr>],
                    target_value = ''notes.pdf'' \<rparr>
      = Some (\<lparr> name = ''notes.pdf'', type = ''application/pdf'' \<rparr> # [])" by simp
  have t: "\<not> startsWith (type \<lparr> name = ''notes.pdf'', type = ''application/pdf'' \<rparr>) ''image/''"
    by (simp add: startsWith_def)
  from handleFileChange_not_image
         [OF f t, of "\<lambda>f. ''blob:'' @ name f" "hd initialImages" initialWorld] f t
  show ?thesis by (simp add: initialWorld_def)
qed

text \<open>
  C8. When the change event carries no file (the file list is null or empty), the handler
  returns the world it was given: no slot's src is modified and no notice is shown.
\<close>

theorem handleFileChange_no_file:
  assumes "files event = None \<or> files event = Some []"
  shows "fst (handleFileChange createObjectURL img event w) = w"
  using assms by (auto simp: handleFileChange_def first_file_def)

theorem handleFileChange_no_file_witness:
  "(files \<lparr> files = Some [], target_value = [] \<rparr> = None \<or>
    files \<lparr> files = Some [], target_value = [] \<rparr> = Some []) \<and>
   fst (handleFileChange (\<lambda>f. ''blob:'' @ name f) (hd initialImages)
          \<lparr> files = Some [], target_value = [] \<rparr> initialWorld) = initialWorld \<and>
   (files \<lparr> files = None, target_value = [] \<rparr> = None \<or>
    files \<lparr> files = None, target_value = [] \<rparr> = Some []) \<and>
   fst (handleFileChange (\<lambda>f. ''blob:'' @ name f) (hd initialImages)
          \<lparr> files = None, target_value = [] \<rparr> initialWorld) = initialWorld"
proof -
  have a: "files \<lparr> files = Some [], target_value = [] \<rparr> = None \<or>
           files \<lparr> files = Some [], target_value = [] \<rparr> = Some []" by simp
  have b: "files \<lparr> files = None, target_value = [] \<rparr> = None \<or>
           files \<lparr> files = None, target_value = [] \<rparr> = Some []" by simp
  from handleFileChange_no_file [OF a] handleFileChange_no_file [OF b] a b
  show ?thesis by blast
qed

section \<open>Startup\<close>

text \<open>
  C9. When the document has no element with the id root, startup ends with the fatal error
  and has made no call into the rendering library; when it has one, startup creates the
  root on that element and renders the application into it.
\<close>

theorem startup_root_element:
  "(getElementById doc ''root'' = None \<longrightarrow>
      startup doc = Inl (Error ''Could not find root element to mount to'')) \<and>
   (\<forall>el. getElementById doc ''root'' = Some el \<longrightarrow>
      startup doc = Inr [CreateRoot el, RenderApp el])"
  by (simp add: startup_def)

theorem startup_root_element_witness:
  "getElementById [(''app'', Element 0)] ''root'' = None \<and>
   startup [(''app'', Element 0)] = Inl (Error ''Could not find root element to mount to'') \<and>
   getElementById [(''app'', Element 0), (''root'', Element 1)] ''root'' = Some (Element 1) \<and>
   startup [(''app'', Element 0), (''root'', Element 1)]
     = Inr [CreateRoot (Element 1), RenderApp (Element 1)]"
proof -
  have a: "getElementById [(''app'', Element 0)] ''root'' = None"
    by (simp add: getElementById_def)
  have b: "getElementById [(''app'', Element 0), (''root'', Element 1)] ''root''
             = Some (Element 1)"
    by (simp add: getElementById_def)
  from startup_root_element [of "[(''app'', Element 0)]"]
       startup_root_element [of "[(''app'', Element 0), (''root'', Element 1)]"] a b
  show ?thesis by simp
qed

end
